theory Spec2Isabelle
  imports Complex_Main
begin

unbundle bit_operations_syntax

section \<open>Hand-gesture brightness control: the model\<close>

text \<open>
  The script \<^verbatim>\<open>brightness_control.py\<close> has three functions: \<^verbatim>\<open>get_hand_landmarks\<close>,
  \<^verbatim>\<open>calculate_brightness\<close> and \<^verbatim>\<open>main\<close>. Python floats are read as real numbers
  (no rounding, no NaN, no infinity), Python ints as \<open>int\<close>; the conversion of an int
  to a float, which can fail, is modelled where a caller may pass ints of any size. What the libraries
  (OpenCV, Mediapipe, NumPy, screen-brightness-control) do is either modelled from their
  documentation (\<open>math.hypot\<close>, \<open>numpy.interp\<close>, \<open>int\<close>) or taken as an input of the
  iteration (the frame read, the detection result, the key polled, whether the
  brightness backend raises).
\<close>

subsection \<open>Library functions\<close>

datatype error = ValueError | OverflowError | ScreenBrightnessError

text \<open>\<^verbatim>\<open>int(x)\<close> on a float truncates towards zero.\<close>

definition py_int :: "real \<Rightarrow> int" where
  "py_int r = (if 0 \<le> r then \<lfloor>r\<rfloor> else \<lceil>r\<rceil>)"

text \<open>\<^verbatim>\<open>math.hypot(a, b)\<close>: the Euclidean norm of \<open>(a, b)\<close>.\<close>

definition hypot :: "real \<Rightarrow> real \<Rightarrow> real" where
  "hypot a b = sqrt (a\<^sup>2 + b\<^sup>2)"

text \<open>
  \<^verbatim>\<open>numpy.interp(x, xp, fp)\<close> for a scalar \<open>x\<close> and increasing sample points \<open>xp\<close>:
  \<open>fp[0]\<close> to the left of the samples, \<open>fp[-1]\<close> to their right, the sample value at a
  sample point, and \<open>slope * (x - xp[j]) + fp[j]\<close> on the segment \<open>xp[j] \<le> x < xp[j+1]\<close>.
  It raises \<^verbatim>\<open>ValueError\<close> when \<open>xp\<close> is empty or \<open>fp\<close> has another length.
  \<open>interp_from x x0 y0 ps\<close> walks the segments from the sample \<open>(x0, y0)\<close> on, knowing
  \<open>x0 \<le> x\<close>.
\<close>

fun interp_from :: "real \<Rightarrow> real \<Rightarrow> real \<Rightarrow> (real \<times> real) list \<Rightarrow> real" where
  "interp_from x x0 y0 [] = y0"
| "interp_from x x0 y0 ((x1, y1) # ps) =
     (if x < x1
      then (if x = x0 then y0 else (y1 - y0) / (x1 - x0) * (x - x0) + y0)
      else interp_from x x1 y1 ps)"

definition np_interp :: "real \<Rightarrow> real list \<Rightarrow> real list \<Rightarrow> error + real" where
  "np_interp x xp fp =
     (if xp = [] then Inl ValueError
      else if length fp \<noteq> length xp then Inl ValueError
      else if x < hd xp then Inr (hd fp)
      else if last xp < x then Inr (last fp)
      else Inr (interp_from x (hd xp) (hd fp) (zip (tl xp) (tl fp))))"

subsection \<open>\<^verbatim>\<open>calculate_brightness\<close>\<close>

text \<open>
  \<^verbatim>\<open>
  def calculate_brightness(thumb, index_finger):
      x1, y1 = thumb
      x2, y2 = index_finger
      distance = hypot(x2 - x1, y2 - y1)
      brightness = np.interp(distance, [15, 220], [0, 100])
      return int(brightness), distance
  \<close>
  The result is \<open>Inr (brightness, distance)\<close>, or \<open>Inl\<close> the exception raised.
\<close>

definition calculate_brightness ::
  "real \<times> real \<Rightarrow> real \<times> real \<Rightarrow> error + (int \<times> real)" where
  "calculate_brightness thumb index_finger =
     (case thumb of (x1, y1) \<Rightarrow>
      case index_finger of (x2, y2) \<Rightarrow>
        let distance = hypot (x2 - x1) (y2 - y1) in
        case np_interp distance [15, 220] [0, 100] of
          Inl e \<Rightarrow> Inl e
        | Inr brightness \<Rightarrow> Inr (py_int brightness, distance))"

subsection \<open>\<^verbatim>\<open>calculate_brightness\<close> called with Python numbers\<close>





subsection \<open>\<^verbatim>\<open>get_hand_landmarks\<close>\<close>

text \<open>
  An image is known by its shape and by what has been drawn on it; a landmark of the
  detector is a pair of normalised coordinates \<open>(lm.x, lm.y)\<close>, a hand is the list of
  its landmarks, and an entry of \<open>landmarks_list\<close> is a triple \<open>(id, cx, cy)\<close>.
\<close>

type_synonym pixel = "int \<times> int"
type_synonym hand = "(real \<times> real) list"
type_synonym landmark = "nat \<times> int \<times> int"

datatype drawing =
    Hand_connections hand
  | Circle pixel
  | Line pixel pixel

record image =
  shape_h :: nat
  shape_w :: nat
  drawn :: "drawing list"

text \<open>
  \<^verbatim>\<open>
  landmarks_list = []
  if results.multi_hand_landmarks:
      for hand_landmarks in results.multi_hand_landmarks:
          for id, lm in enumerate(hand_landmarks.landmark):
              h, w, _ = image.shape
              cx, cy = int(lm.x * w), int(lm.y * h)
              landmarks_list.append((id, cx, cy))
          mp_draw.draw_landmarks(image, hand_landmarks, mp_hands.HAND_CONNECTIONS)
  return landmarks_list
  \<close>
  The detector's answer \<open>results.multi_hand_landmarks\<close> (\<open>None\<close> when it found no hand)
  replaces the arguments it is computed from. The function returns the list and the
  image it has drawn on.
\<close>

fun landmark_loop :: "image \<Rightarrow> nat \<Rightarrow> hand \<Rightarrow> landmark list \<Rightarrow> landmark list" where
  "landmark_loop img i [] landmarks_list = landmarks_list"
| "landmark_loop img i (lm # lms) landmarks_list =
     (let h = shape_h img; w = shape_w img;
          cx = py_int (fst lm * real w); cy = py_int (snd lm * real h)
      in landmark_loop img (Suc i) lms (landmarks_list @ [(i, cx, cy)]))"

fun hands_loop :: "image \<Rightarrow> hand list \<Rightarrow> landmark list \<Rightarrow> landmark list \<times> image" where
  "hands_loop img [] landmarks_list = (landmarks_list, img)"
| "hands_loop img (hand_landmarks # hs) landmarks_list =
     hands_loop (img\<lparr>drawn := drawn img @ [Hand_connections hand_landmarks]\<rparr>) hs
       (landmark_loop img 0 hand_landmarks landmarks_list)"

definition get_hand_landmarks :: "image \<Rightarrow> hand list option \<Rightarrow> landmark list \<times> image" where
  "get_hand_landmarks img multi_hand_landmarks =
     (case multi_hand_landmarks of
        None \<Rightarrow> ([], img)
      | Some [] \<Rightarrow> ([], img)
      | Some (hand_landmarks # hs) \<Rightarrow> hands_loop img (hand_landmarks # hs) [])"

subsection \<open>\<^verbatim>\<open>main\<close>\<close>

text \<open>
  What the world answers in one pass of the loop: \<open>cap.isOpened()\<close>, \<open>cap.read()\<close>
  (\<open>None\<close> when \<open>success\<close> is false), the detector's result on the frame, whether
  \<open>sbc.set_brightness\<close> raises, and the value of \<open>cv2.waitKey(1)\<close>.
\<close>

record iteration =
  is_opened :: bool
  cap_read :: "image option"
  detected :: "hand list option"
  backend_raises :: bool
  wait_key :: int

text \<open>What the program does to the world, in order.\<close>

datatype event =
    Print string
  | Print_brightness int real
  | Set_brightness int
  | Imshow image
  | Cap_release
  | Destroy_all_windows

datatype control = Continue | Break | Raise error

datatype outcome = Finished | Raised error | Pending

text \<open>
  The body of the \<^verbatim>\<open>while\<close> loop, after its test:
  \<^verbatim>\<open>
  success, frame = cap.read()
  if not success:
      print("Failed to capture frame. Exiting...")
      break
  landmarks = get_hand_landmarks(frame, hands)
  if landmarks and len(landmarks) >= 9:
      thumb_tip = landmarks[4][1:3]
      index_tip = landmarks[8][1:3]
      brightness, distance = calculate_brightness(thumb_tip, index_tip)
      print(f"Brightness: {brightness}%, Distance: {distance:.2f}")
      sbc.set_brightness(brightness)
      cv2.circle(frame, thumb_tip, 6, (255, 0, 0), cv2.FILLED)
      cv2.circle(frame, index_tip, 6, (255, 0, 0), cv2.FILLED)
      cv2.line(frame, thumb_tip, index_tip, (255, 0, 0), 3)
  cv2.imshow("Hand Gesture Brightness Control", frame)
  if cv2.waitKey(1) & 0xFF == ord("q"):
      break
  \<close>
  It returns how control leaves the body and the events of this pass. The formatted line
  is kept as its two values; \<open>ord("q")\<close> is 113.
\<close>

definition loop_body :: "iteration \<Rightarrow> control \<times> event list" where
  "loop_body it =
     (case cap_read it of
        None \<Rightarrow> (Break, [Print ''Failed to capture frame. Exiting...''])
      | Some frame0 \<Rightarrow>
          (case get_hand_landmarks frame0 (detected it) of (landmarks, frame) \<Rightarrow>
            (case
               (if landmarks \<noteq> [] \<and> 9 \<le> length landmarks then
                  let thumb_tip = snd (landmarks ! 4);
                      index_tip = snd (landmarks ! 8)
                  in (case calculate_brightness
                             (real_of_int (fst thumb_tip), real_of_int (snd thumb_tip))
                             (real_of_int (fst index_tip), real_of_int (snd index_tip)) of
                        Inl e \<Rightarrow> (Inl e, [])
                      | Inr (brightness, distance) \<Rightarrow>
                          if backend_raises it
                          then (Inl ScreenBrightnessError,
                                [Print_brightness brightness distance, Set_brightness brightness])
                          else (Inr (frame\<lparr>drawn := drawn frame @
                                       [Circle thumb_tip, Circle index_tip,
                                        Line thumb_tip index_tip]\<rparr>),
                                [Print_brightness brightness distance, Set_brightness brightness]))
                else (Inr frame, []))
             of
               (Inl e, evs) \<Rightarrow> (Raise e, evs)
             | (Inr frame', evs) \<Rightarrow>
                 (if wait_key it AND 255 = 113 then Break else Continue,
                  evs @ [Imshow frame']))))"

text \<open>
  \<^verbatim>\<open>while cap.isOpened(): ...\<close> over the passes the world provides. \<open>Pending\<close>: the
  loop has used every pass given and would go on; \<open>Finished\<close>: the loop was left;
  \<open>Raised e\<close>: an exception left the body.
\<close>

fun main_loop :: "iteration list \<Rightarrow> outcome \<times> event list" where
  "main_loop [] = (Pending, [])"
| "main_loop (it # its) =
     (if \<not> is_opened it then (Finished, [])
      else (case loop_body it of
              (Continue, evs) \<Rightarrow> (fst (main_loop its), evs @ snd (main_loop its))
            | (Break, evs) \<Rightarrow> (Finished, evs)
            | (Raise e, evs) \<Rightarrow> (Raised e, evs)))"

text \<open>
  \<^verbatim>\<open>
  def main():
      cap = cv2.VideoCapture(0)
      hands = mp_hands.Hands(min_detection_confidence=0.7, min_tracking_confidence=0.7)
      while cap.isOpened():
          ...
      cap.release()
      cv2.destroyAllWindows()
  \<close>
  The two calls after the loop run when the loop is left, not when an exception
  leaves the body: the script has no \<^verbatim>\<open>try\<close>.
\<close>

definition main :: "iteration list \<Rightarrow> outcome \<times> event list" where
  "main its =
     (case main_loop its of
        (Finished, tr) \<Rightarrow> (Finished, tr @ [Cap_release, Destroy_all_windows])
      | (Raised e, tr) \<Rightarrow> (Raised e, tr)
      | (Pending, tr) \<Rightarrow> (Pending, tr))"

section \<open>Properties of the brightness mapping\<close>

lemma hypot_vertical: "hypot 0 b = \<bar>b\<bar>"
  by (simp add: hypot_def)

lemma py_int_nonneg: "0 \<le> r \<Longrightarrow> py_int r = \<lfloor>r\<rfloor>"
  by (simp add: py_int_def)

text \<open>The interpolation the script asks for, in closed form.\<close>

lemma np_interp_brightness:
  "np_interp d [15, 220] [0, 100] =
     Inr (if d \<le> 15 then 0 else if 220 \<le> d then 100 else 100 / 205 * (d - 15))"
  by (simp add: np_interp_def)

lemma calculate_brightness_eq:
  "calculate_brightness (x1, y1) (x2, y2) =
     Inr (py_int (if hypot (x2 - x1) (y2 - y1) \<le> 15 then 0
                  else if 220 \<le> hypot (x2 - x1) (y2 - y1) then 100
                  else 100 / 205 * (hypot (x2 - x1) (y2 - y1) - 15)),
          hypot (x2 - x1) (y2 - y1))"
  by (simp add: calculate_brightness_def np_interp_brightness Let_def)

lemma interp_range:
  assumes "np_interp d [15, 220] [0, 100] = Inr v"
  shows "0 \<le> v \<and> v \<le> 100"
  using assms by (auto simp: np_interp_brightness split: if_splits)

lemma interp_mono:
  assumes "d1 \<le> d2"
    and "np_interp d1 [15, 220] [0, 100] = Inr v1"
    and "np_interp d2 [15, 220] [0, 100] = Inr v2"
  shows "v1 \<le> v2"
  using assms by (auto simp: np_interp_brightness split: if_splits)

text \<open>
  Every call returns: the interpolation has a value \<open>v\<close>, which is not negative, so that
  \<open>int\<close> is the floor, and the distance returned is the one interpolated.
\<close>

lemma calculate_brightness_cases:
  "\<exists>v. np_interp (hypot (fst q - fst p) (snd q - snd p)) [15, 220] [0, 100] = Inr v \<and>
       calculate_brightness p q = Inr (\<lfloor>v\<rfloor>, hypot (fst q - fst p) (snd q - snd p))"
proof (cases p, cases q)
  fix x1 y1 x2 y2
  assume pq: "p = (x1, y1)" "q = (x2, y2)"
  obtain v where v: "np_interp (hypot (x2 - x1) (y2 - y1)) [15, 220] [0, 100] = Inr v"
    by (simp add: np_interp_brightness)
  then have "0 \<le> v" using interp_range by blast
  with v have "calculate_brightness (x1, y1) (x2, y2) = Inr (\<lfloor>v\<rfloor>, hypot (x2 - x1) (y2 - y1))"
    by (simp add: calculate_brightness_def py_int_nonneg Let_def)
  with v pq show ?thesis by simp
qed

text \<open>
  Claim C1. For every pair of fingertip coordinates, \<open>calculate_brightness\<close> returns
  brightness 0 whenever the Euclidean distance of the two points is at most 15, and
  brightness 100 whenever it is at least 220.
\<close>

theorem brightness_clamped:
  "(hypot (x2 - x1) (y2 - y1) \<le> 15 \<longrightarrow>
      calculate_brightness (x1, y1) (x2, y2) = Inr (0, hypot (x2 - x1) (y2 - y1)))
   \<and> (220 \<le> hypot (x2 - x1) (y2 - y1) \<longrightarrow>
      calculate_brightness (x1, y1) (x2, y2) = Inr (100, hypot (x2 - x1) (y2 - y1)))"
  by (simp add: calculate_brightness_eq py_int_def)

theorem brightness_clamped_witness:
  "hypot (0 - 0) (5 - 0) \<le> 15 \<and> calculate_brightness (0, 0) (0, 5) = Inr (0, 5)
   \<and> 220 \<le> hypot (0 - 0) (500 - 0) \<and> calculate_brightness (0, 0) (0, 500) = Inr (100, 500)"
  using brightness_clamped [of 0 0 5 0] brightness_clamped [of 0 0 500 0]
  by (simp add: hypot_vertical)

text \<open>
  Claim C3. The brightness returned does not decrease when the fingertip distance grows:
  for two calls returning distances \<open>d1\<close> and \<open>d2\<close> with \<open>15 \<le> d1 \<le> d2 \<le> 220\<close>, the
  brightness of the first is at most that of the second.
\<close>

theorem brightness_monotone:
  assumes "calculate_brightness thumb1 index1 = Inr (b1, d1)"
    and "calculate_brightness thumb2 index2 = Inr (b2, d2)"
    and "15 \<le> d1" and "d1 \<le> d2" and "d2 \<le> 220"
  shows "b1 \<le> b2"
proof -
  obtain v1 where v1: "np_interp d1 [15, 220] [0, 100] = Inr v1" "b1 = \<lfloor>v1\<rfloor>"
    using calculate_brightness_cases [of index1 thumb1] assms(1) by auto
  obtain v2 where v2: "np_interp d2 [15, 220] [0, 100] = Inr v2" "b2 = \<lfloor>v2\<rfloor>"
    using calculate_brightness_cases [of index2 thumb2] assms(2) by auto
  have "v1 \<le> v2" using interp_mono [OF assms(4) v1(1) v2(1)] .
  then show ?thesis using v1(2) v2(2) by (simp add: floor_mono)
qed

theorem brightness_monotone_witness:
  "calculate_brightness (0, 0) (0, 50) = Inr (17, 50) \<and>
   calculate_brightness (0, 0) (0, 100) = Inr (41, 100) \<and>
   (15::real) \<le> 50 \<and> (50::real) \<le> 100 \<and> (100::real) \<le> 220 \<and> (17::int) \<le> 41"
proof -
  have a: "calculate_brightness (0, 0) (0, 50) = Inr (17, 50)"
    by (simp add: calculate_brightness_eq hypot_vertical py_int_def)
  have b: "calculate_brightness (0, 0) (0, 100) = Inr (41, 100)"
    by (simp add: calculate_brightness_eq hypot_vertical py_int_def)
  have "(17::int) \<le> 41" using brightness_monotone [OF a b] by simp
  with a b show ?thesis by simp
qed

text \<open>
  Claim C4. For every pair of input coordinates, \<open>calculate_brightness\<close> returns an
  integer brightness between 0 and 100.
\<close>

theorem brightness_in_range:
  "\<exists>b d. calculate_brightness thumb index_finger = Inr (b, d) \<and> 0 \<le> b \<and> b \<le> 100"
proof -
  obtain v where v:
    "np_interp (hypot (fst index_finger - fst thumb) (snd index_finger - snd thumb))
       [15, 220] [0, 100] = Inr v"
    "calculate_brightness thumb index_finger =
       Inr (\<lfloor>v\<rfloor>, hypot (fst index_finger - fst thumb) (snd index_finger - snd thumb))"
    using calculate_brightness_cases by blast
  have "0 \<le> v \<and> v \<le> 100" using interp_range [OF v(1)] .
  then have "0 \<le> \<lfloor>v\<rfloor> \<and> \<lfloor>v\<rfloor> \<le> 100" by (simp add: floor_le_iff)
  with v(2) show ?thesis by blast
qed

text \<open>
  Claim C5. For an input pair whose Euclidean distance is 117.5, the midpoint of
  \<open>[15, 220]\<close>, \<open>calculate_brightness\<close> returns brightness 50, the midpoint of
  \<open>[0, 100]\<close>.
\<close>

theorem brightness_midpoint:
  assumes "hypot (x2 - x1) (y2 - y1) = 117.5"
  shows "calculate_brightness (x1, y1) (x2, y2) = Inr (50, 117.5)"
  unfolding calculate_brightness_eq assms by (simp add: py_int_def)

theorem brightness_midpoint_witness:
  "hypot (0 - 0) (117.5 - 0) = 117.5 \<and>
   calculate_brightness (0, 0) (0, 117.5) = Inr (50, 117.5)"
  using brightness_midpoint [of 0 0 "117.5" 0] by (simp add: hypot_vertical)









text \<open>
  Claim C7. At the ends of the domain: thumb tip \<open>(100, 100)\<close> and index fingertip
  \<open>(100, 115)\<close> give distance 15 and brightness 0; thumb tip \<open>(100, 100)\<close> and index
  fingertip \<open>(100, 320)\<close> give distance 220 and brightness 100.
\<close>

theorem brightness_end_to_end:
  "calculate_brightness (100, 100) (100, 115) = Inr (0, 15) \<and>
   calculate_brightness (100, 100) (100, 320) = Inr (100, 220)"
  by (simp add: calculate_brightness_eq hypot_vertical py_int_def)

section \<open>Properties of the landmark extraction\<close>

text \<open>Both iterations in closed form: the accumulator grows by the enumerated hand.\<close>

lemma landmark_loop_eq:
  "landmark_loop img i hand_landmarks acc =
     acc @ map (\<lambda>(j, lm). (j, py_int (fst lm * real (shape_w img)),
                             py_int (snd lm * real (shape_h img))))
             (enumerate i hand_landmarks)"
  by (induction hand_landmarks arbitrary: i acc) (simp_all add: Let_def)

lemma hands_loop_eq:
  "hands_loop img hs acc =
     (acc @ concat (map (\<lambda>hand_landmarks.
                map (\<lambda>(j, lm). (j, py_int (fst lm * real (shape_w img)),
                                   py_int (snd lm * real (shape_h img))))
                    (enumerate 0 hand_landmarks)) hs),
      img\<lparr>drawn := drawn img @ map Hand_connections hs\<rparr>)"
  by (induction hs arbitrary: img acc) (simp_all add: landmark_loop_eq)

lemma get_hand_landmarks_eq:
  "get_hand_landmarks img (Some hs) =
     (concat (map (\<lambda>hand_landmarks.
                map (\<lambda>(j, lm). (j, py_int (fst lm * real (shape_w img)),
                                   py_int (snd lm * real (shape_h img))))
                    (enumerate 0 hand_landmarks)) hs),
      img\<lparr>drawn := drawn img @ map Hand_connections hs\<rparr>)"
  by (cases hs) (simp_all add: get_hand_landmarks_def hands_loop_eq del: hands_loop.simps)

lemma length_concat_const:
  "(\<And>x. x \<in> set xs \<Longrightarrow> length (f x) = n) \<Longrightarrow> length (concat (map f xs)) = n * length xs"
  by (induction xs) simp_all

text \<open>
  Claim C10. \<open>get_hand_landmarks\<close> returns the landmarks of all detected hands, one hand
  after the other in detection order, each hand giving its points as triples
  \<open>(id, x, y)\<close> with \<open>id\<close> counted from 0 again for every hand (and the empty list when
  the detector reports no hand). So positions 4 and 8 of the list are points 4 and 8
  (thumb tip, index fingertip) of the first detected hand, once that hand has at least
  9 points, as every 21-point hand has; and \<open>k\<close> hands of 21 points each give a list of
  \<open>21 * k\<close> entries.
\<close>

theorem get_hand_landmarks_all_hands:
  "fst (get_hand_landmarks img None) = []
   \<and> fst (get_hand_landmarks img (Some hs)) =
     concat (map (\<lambda>hand_landmarks.
                map (\<lambda>(j, lm). (j, py_int (fst lm * real (shape_w img)),
                                   py_int (snd lm * real (shape_h img))))
                    (enumerate 0 hand_landmarks)) hs)
   \<and> (9 \<le> length first \<longrightarrow>
        fst (get_hand_landmarks img (Some (first # rest))) ! 4 =
          (4, py_int (fst (first ! 4) * real (shape_w img)),
              py_int (snd (first ! 4) * real (shape_h img))) \<and>
        fst (get_hand_landmarks img (Some (first # rest))) ! 8 =
          (8, py_int (fst (first ! 8) * real (shape_w img)),
              py_int (snd (first ! 8) * real (shape_h img))))
   \<and> ((\<forall>hand_landmarks \<in> set hs. length hand_landmarks = 21) \<longrightarrow>
        length (fst (get_hand_landmarks img (Some hs))) = 21 * length hs)"
proof (intro conjI)
  show "fst (get_hand_landmarks img None) = []"
    by (simp add: get_hand_landmarks_def)
qed (simp_all add: get_hand_landmarks_eq nth_append nth_enumerate_eq length_concat_const)

theorem get_hand_landmarks_all_hands_witness:
  "length [(1/2, 1/2), (1/2, 1/2), (1/2, 1/2), (1/2, 1/2), (1/4, 1/4), (1/2, 1/2), (1/2, 1/2),
          (1/2, 1/2), (1/4, 1/2), (1/2, 1/2), (1/2, 1/2), (1/2, 1/2), (1/2, 1/2), (1/2, 1/2),
          (1/2, 1/2), (1/2, 1/2), (1/2, 1/2), (1/2, 1/2), (1/2, 1/2), (1/2, 1/2), (1/2, 1/2)] = 21 \<and>
   length [(1/4, 3/4), (1/4, 3/4), (1/4, 3/4), (1/4, 3/4), (1/4, 3/4), (1/4, 3/4), (1/4, 3/4),
          (1/4, 3/4), (1/4, 3/4), (1/4, 3/4), (1/4, 3/4), (1/4, 3/4), (1/4, 3/4), (1/4, 3/4),
          (1/4, 3/4), (1/4, 3/4), (1/4, 3/4), (1/4, 3/4), (1/4, 3/4), (1/4, 3/4), (1/4, 3/4)] = 21 \<and>
   length (fst (get_hand_landmarks \<lparr>shape_h = 480, shape_w = 640, drawn = []\<rparr>
     (Some [[(1/2, 1/2), (1/2, 1/2), (1/2, 1/2), (1/2, 1/2), (1/4, 1/4), (1/2, 1/2), (1/2, 1/2),
          (1/2, 1/2), (1/4, 1/2), (1/2, 1/2), (1/2, 1/2), (1/2, 1/2), (1/2, 1/2), (1/2, 1/2),
          (1/2, 1/2), (1/2, 1/2), (1/2, 1/2), (1/2, 1/2), (1/2, 1/2), (1/2, 1/2), (1/2, 1/2)],
            [(1/4, 3/4), (1/4, 3/4), (1/4, 3/4), (1/4, 3/4), (1/4, 3/4), (1/4, 3/4), (1/4, 3/4),
          (1/4, 3/4), (1/4, 3/4), (1/4, 3/4), (1/4, 3/4), (1/4, 3/4), (1/4, 3/4), (1/4, 3/4),
          (1/4, 3/4), (1/4, 3/4), (1/4, 3/4), (1/4, 3/4), (1/4, 3/4), (1/4, 3/4), (1/4, 3/4)]]))) = 42 \<and>
   9 \<le> length [(1/2, 1/2), (1/2, 1/2), (1/2, 1/2), (1/2, 1/2), (1/4, 1/4), (1/2, 1/2), (1/2, 1/2),
          (1/2, 1/2), (1/4, 1/2), (1/2, 1/2), (1/2, 1/2), (1/2, 1/2), (1/2, 1/2), (1/2, 1/2),
          (1/2, 1/2), (1/2, 1/2), (1/2, 1/2), (1/2, 1/2), (1/2, 1/2), (1/2, 1/2), (1/2, 1/2)] \<and>
   fst (get_hand_landmarks \<lparr>shape_h = 480, shape_w = 640, drawn = []\<rparr>
     (Some ([(1/2, 1/2), (1/2, 1/2), (1/2, 1/2), (1/2, 1/2), (1/4, 1/4), (1/2, 1/2), (1/2, 1/2),
          (1/2, 1/2), (1/4, 1/2), (1/2, 1/2), (1/2, 1/2), (1/2, 1/2), (1/2, 1/2), (1/2, 1/2),
          (1/2, 1/2), (1/2, 1/2), (1/2, 1/2), (1/2, 1/2), (1/2, 1/2), (1/2, 1/2), (1/2, 1/2)] #
            [[(1/4, 3/4), (1/4, 3/4), (1/4, 3/4), (1/4, 3/4), (1/4, 3/4), (1/4, 3/4), (1/4, 3/4),
          (1/4, 3/4), (1/4, 3/4), (1/4, 3/4), (1/4, 3/4), (1/4, 3/4), (1/4, 3/4), (1/4, 3/4),
          (1/4, 3/4), (1/4, 3/4), (1/4, 3/4), (1/4, 3/4), (1/4, 3/4), (1/4, 3/4), (1/4, 3/4)]]))) ! 4 = (4, 160, 120) \<and>
   fst (get_hand_landmarks \<lparr>shape_h = 480, shape_w = 640, drawn = []\<rparr>
     (Some ([(1/2, 1/2), (1/2, 1/2), (1/2, 1/2), (1/2, 1/2), (1/4, 1/4), (1/2, 1/2), (1/2, 1/2),
          (1/2, 1/2), (1/4, 1/2), (1/2, 1/2), (1/2, 1/2), (1/2, 1/2), (1/2, 1/2), (1/2, 1/2),
          (1/2, 1/2), (1/2, 1/2), (1/2, 1/2), (1/2, 1/2), (1/2, 1/2), (1/2, 1/2), (1/2, 1/2)] #
            [[(1/4, 3/4), (1/4, 3/4), (1/4, 3/4), (1/4, 3/4), (1/4, 3/4), (1/4, 3/4), (1/4, 3/4),
          (1/4, 3/4), (1/4, 3/4), (1/4, 3/4), (1/4, 3/4), (1/4, 3/4), (1/4, 3/4), (1/4, 3/4),
          (1/4, 3/4), (1/4, 3/4), (1/4, 3/4), (1/4, 3/4), (1/4, 3/4), (1/4, 3/4), (1/4, 3/4)]]))) ! 8 = (8, 160, 240)"
proof -
  have l: "\<forall>hand_landmarks \<in> set [[(1/2, 1/2), (1/2, 1/2), (1/2, 1/2), (1/2, 1/2), (1/4, 1/4), (1/2, 1/2), (1/2, 1/2),
          (1/2, 1/2), (1/4, 1/2), (1/2, 1/2), (1/2, 1/2), (1/2, 1/2), (1/2, 1/2), (1/2, 1/2),
          (1/2, 1/2), (1/2, 1/2), (1/2, 1/2), (1/2, 1/2), (1/2, 1/2), (1/2, 1/2), (1/2, 1/2)],
        [(1/4, 3/4), (1/4, 3/4), (1/4, 3/4), (1/4, 3/4), (1/4, 3/4), (1/4, 3/4), (1/4, 3/4),
          (1/4, 3/4), (1/4, 3/4), (1/4, 3/4), (1/4, 3/4), (1/4, 3/4), (1/4, 3/4), (1/4, 3/4),
          (1/4, 3/4), (1/4, 3/4), (1/4, 3/4), (1/4, 3/4), (1/4, 3/4), (1/4, 3/4), (1/4, 3/4)]]. length hand_landmarks = 21"
    by simp
  show ?thesis
    using l get_hand_landmarks_all_hands [of "\<lparr>shape_h = 480, shape_w = 640, drawn = []\<rparr>"
      "[[(1/2, 1/2), (1/2, 1/2), (1/2, 1/2), (1/2, 1/2), (1/4, 1/4), (1/2, 1/2), (1/2, 1/2),
          (1/2, 1/2), (1/4, 1/2), (1/2, 1/2), (1/2, 1/2), (1/2, 1/2), (1/2, 1/2), (1/2, 1/2),
          (1/2, 1/2), (1/2, 1/2), (1/2, 1/2), (1/2, 1/2), (1/2, 1/2), (1/2, 1/2), (1/2, 1/2)],
        [(1/4, 3/4), (1/4, 3/4), (1/4, 3/4), (1/4, 3/4), (1/4, 3/4), (1/4, 3/4), (1/4, 3/4),
          (1/4, 3/4), (1/4, 3/4), (1/4, 3/4), (1/4, 3/4), (1/4, 3/4), (1/4, 3/4), (1/4, 3/4),
          (1/4, 3/4), (1/4, 3/4), (1/4, 3/4), (1/4, 3/4), (1/4, 3/4), (1/4, 3/4), (1/4, 3/4)]]"
      "[(1/2, 1/2), (1/2, 1/2), (1/2, 1/2), (1/2, 1/2), (1/4, 1/4), (1/2, 1/2), (1/2, 1/2),
          (1/2, 1/2), (1/4, 1/2), (1/2, 1/2), (1/2, 1/2), (1/2, 1/2), (1/2, 1/2), (1/2, 1/2),
          (1/2, 1/2), (1/2, 1/2), (1/2, 1/2), (1/2, 1/2), (1/2, 1/2), (1/2, 1/2), (1/2, 1/2)]"
      "[[(1/4, 3/4), (1/4, 3/4), (1/4, 3/4), (1/4, 3/4), (1/4, 3/4), (1/4, 3/4), (1/4, 3/4),
          (1/4, 3/4), (1/4, 3/4), (1/4, 3/4), (1/4, 3/4), (1/4, 3/4), (1/4, 3/4), (1/4, 3/4),
          (1/4, 3/4), (1/4, 3/4), (1/4, 3/4), (1/4, 3/4), (1/4, 3/4), (1/4, 3/4), (1/4, 3/4)]]"]
    by (simp add: py_int_def)
qed

section \<open>Properties of the main loop\<close>

lemma loop_body_failed:
  "cap_read it = None \<Longrightarrow> loop_body it = (Break, [Print ''Failed to capture frame. Exiting...''])"
  by (simp add: loop_body_def)

lemma loop_body_few:
  assumes "cap_read it = Some frame0"
    and "get_hand_landmarks frame0 (detected it) = (landmarks, frame)"
    and "length landmarks < 9"
  shows "loop_body it = (if wait_key it AND 255 = 113 then Break else Continue, [Imshow frame])"
  using assms by (simp add: loop_body_def)

lemma set_brightness_needs_nine:
  assumes "Set_brightness b \<in> set (snd (loop_body it))"
  shows "\<exists>frame0. cap_read it = Some frame0 \<and>
           9 \<le> length (fst (get_hand_landmarks frame0 (detected it)))"
  using assms
  by (auto simp: loop_body_def Let_def split: option.splits prod.splits sum.splits if_splits)

text \<open>The loop itself never releases the camera nor closes the windows.\<close>

lemma loop_body_events:
  "ev \<in> set (snd (loop_body it)) \<Longrightarrow> ev \<noteq> Cap_release \<and> ev \<noteq> Destroy_all_windows"
  by (auto simp: loop_body_def Let_def split: option.splits prod.splits sum.splits if_splits)

lemma main_loop_events:
  "ev \<in> set (snd (main_loop its)) \<Longrightarrow> ev \<noteq> Cap_release \<and> ev \<noteq> Destroy_all_windows"
proof (induction its)
  case Nil
  then show ?case by simp
next
  case (Cons it its)
  then show ?case
    using loop_body_events [of ev it]
    by (auto split: if_splits prod.splits control.splits)
qed

text \<open>Passes that all go on to the next one can be put in front of any run.\<close>

lemma main_loop_append:
  "fst (main_loop pre) = Pending \<Longrightarrow>
     main_loop (pre @ its) = (fst (main_loop its), snd (main_loop pre) @ snd (main_loop its))"
proof (induction pre)
  case Nil
  then show ?case by simp
next
  case (Cons it pre)
  then show ?case
    by (auto split: if_splits prod.splits control.splits)
qed

text \<open>
  How the body is left once a frame was read: by the key test when the backend does not
  raise, by the exception when it raises on a frame with at least 9 landmarks.
\<close>

lemma loop_body_quiet:
  assumes "cap_read it = Some frame0" and "\<not> backend_raises it"
  shows "fst (loop_body it) = (if wait_key it AND 255 = 113 then Break else Continue)"
proof -
  obtain landmarks frame where g: "get_hand_landmarks frame0 (detected it) = (landmarks, frame)"
    by (cases "get_hand_landmarks frame0 (detected it)")
  obtain b d where c: "calculate_brightness
        (real_of_int (fst (snd (landmarks ! 4))), real_of_int (snd (snd (landmarks ! 4))))
        (real_of_int (fst (snd (landmarks ! 8))), real_of_int (snd (snd (landmarks ! 8)))) = Inr (b, d)"
    using calculate_brightness_cases by blast
  show ?thesis
    using assms g c by (simp add: loop_body_def Let_def)
qed

lemma loop_body_backend_raises:
  assumes "cap_read it = Some frame0" and "backend_raises it"
    and "9 \<le> length (fst (get_hand_landmarks frame0 (detected it)))"
  shows "fst (loop_body it) = Raise ScreenBrightnessError"
proof -
  obtain landmarks frame where g: "get_hand_landmarks frame0 (detected it) = (landmarks, frame)"
    by (cases "get_hand_landmarks frame0 (detected it)")
  obtain b d where c: "calculate_brightness
        (real_of_int (fst (snd (landmarks ! 4))), real_of_int (snd (snd (landmarks ! 4))))
        (real_of_int (fst (snd (landmarks ! 8))), real_of_int (snd (snd (landmarks ! 8)))) = Inr (b, d)"
    using calculate_brightness_cases by blast
  from assms(3) g have "landmarks \<noteq> [] \<and> 9 \<le> length landmarks" by auto
  then show ?thesis
    using assms(1,2) g c by (simp add: loop_body_def Let_def)
qed

lemma main_loop_break:
  "is_opened it \<Longrightarrow> fst (loop_body it) = Break \<Longrightarrow>
     main_loop (it # its) = (Finished, snd (loop_body it))"
  by (cases "loop_body it") simp

lemma main_loop_raise:
  "is_opened it \<Longrightarrow> fst (loop_body it) = Raise e \<Longrightarrow>
     main_loop (it # its) = (Raised e, snd (loop_body it))"
  by (cases "loop_body it") simp

lemma main_append:
  assumes "fst (main_loop pre) = Pending"
  shows "main (pre @ its) =
     (case main_loop its of
        (Finished, tr) \<Rightarrow> (Finished, snd (main_loop pre) @ tr @ [Cap_release, Destroy_all_windows])
      | (Raised e, tr) \<Rightarrow> (Raised e, snd (main_loop pre) @ tr)
      | (Pending, tr) \<Rightarrow> (Pending, snd (main_loop pre) @ tr))"
  using main_loop_append [OF assms, of its]
  by (simp add: main_def split: prod.splits outcome.splits)

text \<open>
  Two passes on a 640 by 480 frame with one hand of 21 points, thumb tip at pixel
  \<open>(160, 120)\<close> and index fingertip at \<open>(160, 240)\<close>: distance 120, brightness 51.
\<close>

lemma sample_pass:
  "loop_body \<lparr>is_opened = True, cap_read = Some \<lparr>shape_h = 480, shape_w = 640, drawn = []\<rparr>,
        detected = Some [[(1/2, 1/2), (1/2, 1/2), (1/2, 1/2), (1/2, 1/2), (1/4, 1/4), (1/2, 1/2), (1/2, 1/2),
          (1/2, 1/2), (1/4, 1/2), (1/2, 1/2), (1/2, 1/2), (1/2, 1/2), (1/2, 1/2), (1/2, 1/2),
          (1/2, 1/2), (1/2, 1/2), (1/2, 1/2), (1/2, 1/2), (1/2, 1/2), (1/2, 1/2), (1/2, 1/2)]],
        backend_raises = False, wait_key = - 1\<rparr> =
     (Continue, [Print_brightness 51 120, Set_brightness 51,
                 Imshow \<lparr>shape_h = 480, shape_w = 640,
        drawn = [Hand_connections
         [(1/2, 1/2), (1/2, 1/2), (1/2, 1/2), (1/2, 1/2), (1/4, 1/4), (1/2, 1/2), (1/2, 1/2),
          (1/2, 1/2), (1/4, 1/2), (1/2, 1/2), (1/2, 1/2), (1/2, 1/2), (1/2, 1/2), (1/2, 1/2),
          (1/2, 1/2), (1/2, 1/2), (1/2, 1/2), (1/2, 1/2), (1/2, 1/2), (1/2, 1/2), (1/2, 1/2)],
         Circle (160, 120), Circle (160, 240), Line (160, 120) (160, 240)]\<rparr>])"
  by (simp add: loop_body_def get_hand_landmarks_def py_int_def calculate_brightness_eq
        hypot_vertical Let_def)

lemma sample_pass_raise:
  "loop_body \<lparr>is_opened = True, cap_read = Some \<lparr>shape_h = 480, shape_w = 640, drawn = []\<rparr>,
        detected = Some [[(1/2, 1/2), (1/2, 1/2), (1/2, 1/2), (1/2, 1/2), (1/4, 1/4), (1/2, 1/2), (1/2, 1/2),
          (1/2, 1/2), (1/4, 1/2), (1/2, 1/2), (1/2, 1/2), (1/2, 1/2), (1/2, 1/2), (1/2, 1/2),
          (1/2, 1/2), (1/2, 1/2), (1/2, 1/2), (1/2, 1/2), (1/2, 1/2), (1/2, 1/2), (1/2, 1/2)]],
        backend_raises = True, wait_key = - 1\<rparr> =
     (Raise ScreenBrightnessError, [Print_brightness 51 120, Set_brightness 51])"
  by (simp add: loop_body_def get_hand_landmarks_def py_int_def calculate_brightness_eq
        hypot_vertical Let_def)

text \<open>
  Claim C2, as stated, says that a pass whose landmark list has fewer than 9 entries is
  always followed by the next frame. It is not when \<open>q\<close> is pressed in that pass: with
  no hand detected and key 113 the body breaks, and the second pass given never runs.
\<close>

theorem few_landmarks_quit_counterexample:
  "length (fst (get_hand_landmarks \<lparr>shape_h = 480, shape_w = 640, drawn = []\<rparr> None)) < 9 \<and>
   fst (loop_body \<lparr>is_opened = True, cap_read = Some \<lparr>shape_h = 480, shape_w = 640, drawn = []\<rparr>,
        detected = None,
        backend_raises = False, wait_key = 113\<rparr>) = Break \<and>
   main_loop [\<lparr>is_opened = True, cap_read = Some \<lparr>shape_h = 480, shape_w = 640, drawn = []\<rparr>,
        detected = None,
        backend_raises = False, wait_key = 113\<rparr>,
              \<lparr>is_opened = True, cap_read = Some \<lparr>shape_h = 480, shape_w = 640, drawn = []\<rparr>,
        detected = Some [[(1/2, 1/2), (1/2, 1/2), (1/2, 1/2), (1/2, 1/2), (1/4, 1/4), (1/2, 1/2), (1/2, 1/2),
          (1/2, 1/2), (1/4, 1/2), (1/2, 1/2), (1/2, 1/2), (1/2, 1/2), (1/2, 1/2), (1/2, 1/2),
          (1/2, 1/2), (1/2, 1/2), (1/2, 1/2), (1/2, 1/2), (1/2, 1/2), (1/2, 1/2), (1/2, 1/2)]],
        backend_raises = False, wait_key = - 1\<rparr>] =
     (Finished, [Imshow \<lparr>shape_h = 480, shape_w = 640, drawn = []\<rparr>])"
  by (simp add: loop_body_def get_hand_landmarks_def)

text \<open>
  Claim C2, amended. In a pass whose landmark list has fewer than 9 entries (the empty
  list included) the only event is the display of the frame: the brightness backend is
  not called and no diagnostic line is printed; the loop then goes on to the next frame
  unless the quit key is pressed in that pass. A brightness call occurs only in a pass
  with at least 9 landmarks.
\<close>

theorem few_landmarks_no_brightness:
  "(cap_read it = Some frame0 \<and> get_hand_landmarks frame0 (detected it) = (landmarks, frame) \<and>
      length landmarks < 9 \<longrightarrow>
      loop_body it = (if wait_key it AND 255 = 113 then Break else Continue, [Imshow frame]) \<and>
      (is_opened it \<and> wait_key it AND 255 \<noteq> 113 \<longrightarrow>
         main_loop (it # its) = (fst (main_loop its), Imshow frame # snd (main_loop its))))
   \<and> (Set_brightness b \<in> set (snd (loop_body it')) \<longrightarrow>
        (\<exists>frame1. cap_read it' = Some frame1 \<and>
           9 \<le> length (fst (get_hand_landmarks frame1 (detected it')))))"
proof (intro conjI impI)
  assume h: "cap_read it = Some frame0 \<and>
      get_hand_landmarks frame0 (detected it) = (landmarks, frame) \<and> length landmarks < 9"
  then show body:
    "loop_body it = (if wait_key it AND 255 = 113 then Break else Continue, [Imshow frame])"
    using loop_body_few by blast
  assume "is_opened it \<and> wait_key it AND 255 \<noteq> 113"
  with body show "main_loop (it # its) = (fst (main_loop its), Imshow frame # snd (main_loop its))"
    by simp
next
  assume "Set_brightness b \<in> set (snd (loop_body it'))"
  then show "\<exists>frame1. cap_read it' = Some frame1 \<and>
           9 \<le> length (fst (get_hand_landmarks frame1 (detected it')))"
    by (rule set_brightness_needs_nine)
qed

theorem few_landmarks_no_brightness_witness:
  "loop_body \<lparr>is_opened = True, cap_read = Some \<lparr>shape_h = 480, shape_w = 640, drawn = []\<rparr>,
        detected = None,
        backend_raises = False, wait_key = - 1\<rparr> = (Continue, [Imshow \<lparr>shape_h = 480, shape_w = 640, drawn = []\<rparr>]) \<and>
   main_loop (\<lparr>is_opened = True, cap_read = Some \<lparr>shape_h = 480, shape_w = 640, drawn = []\<rparr>,
        detected = None,
        backend_raises = False, wait_key = - 1\<rparr> #
              [\<lparr>is_opened = True, cap_read = None,
        detected = None,
        backend_raises = False, wait_key = - 1\<rparr>]) =
     (Finished, [Imshow \<lparr>shape_h = 480, shape_w = 640, drawn = []\<rparr>, Print ''Failed to capture frame. Exiting...'']) \<and>
   Set_brightness 51 \<in> set (snd (loop_body \<lparr>is_opened = True, cap_read = Some \<lparr>shape_h = 480, shape_w = 640, drawn = []\<rparr>,
        detected = Some [[(1/2, 1/2), (1/2, 1/2), (1/2, 1/2), (1/2, 1/2), (1/4, 1/4), (1/2, 1/2), (1/2, 1/2),
          (1/2, 1/2), (1/4, 1/2), (1/2, 1/2), (1/2, 1/2), (1/2, 1/2), (1/2, 1/2), (1/2, 1/2),
          (1/2, 1/2), (1/2, 1/2), (1/2, 1/2), (1/2, 1/2), (1/2, 1/2), (1/2, 1/2), (1/2, 1/2)]],
        backend_raises = False, wait_key = - 1\<rparr>)) \<and>
   9 \<le> length (fst (get_hand_landmarks \<lparr>shape_h = 480, shape_w = 640, drawn = []\<rparr>
          (Some [[(1/2, 1/2), (1/2, 1/2), (1/2, 1/2), (1/2, 1/2), (1/4, 1/4), (1/2, 1/2), (1/2, 1/2),
          (1/2, 1/2), (1/4, 1/2), (1/2, 1/2), (1/2, 1/2), (1/2, 1/2), (1/2, 1/2), (1/2, 1/2),
          (1/2, 1/2), (1/2, 1/2), (1/2, 1/2), (1/2, 1/2), (1/2, 1/2), (1/2, 1/2), (1/2, 1/2)]])))"
proof -
  have g: "get_hand_landmarks \<lparr>shape_h = 480, shape_w = 640, drawn = []\<rparr> None = ([], \<lparr>shape_h = 480, shape_w = 640, drawn = []\<rparr>)"
    by (simp add: get_hand_landmarks_def)
  have s: "Set_brightness 51 \<in> set (snd (loop_body \<lparr>is_opened = True, cap_read = Some \<lparr>shape_h = 480, shape_w = 640, drawn = []\<rparr>,
        detected = Some [[(1/2, 1/2), (1/2, 1/2), (1/2, 1/2), (1/2, 1/2), (1/4, 1/4), (1/2, 1/2), (1/2, 1/2),
          (1/2, 1/2), (1/4, 1/2), (1/2, 1/2), (1/2, 1/2), (1/2, 1/2), (1/2, 1/2), (1/2, 1/2),
          (1/2, 1/2), (1/2, 1/2), (1/2, 1/2), (1/2, 1/2), (1/2, 1/2), (1/2, 1/2), (1/2, 1/2)]],
        backend_raises = False, wait_key = - 1\<rparr>))"
    by (simp add: sample_pass)
  have f: "main_loop [\<lparr>is_opened = True, cap_read = None,
        detected = None,
        backend_raises = False, wait_key = - 1\<rparr>] = (Finished, [Print ''Failed to capture frame. Exiting...''])"
    by (simp add: loop_body_def)
  show ?thesis
    using few_landmarks_no_brightness [of "\<lparr>is_opened = True, cap_read = Some \<lparr>shape_h = 480, shape_w = 640, drawn = []\<rparr>,
        detected = None,
        backend_raises = False, wait_key = - 1\<rparr>"
        "\<lparr>shape_h = 480, shape_w = 640, drawn = []\<rparr>" "[]" "\<lparr>shape_h = 480, shape_w = 640, drawn = []\<rparr>"
        "[\<lparr>is_opened = True, cap_read = None,
        detected = None,
        backend_raises = False, wait_key = - 1\<rparr>]" 51
        "\<lparr>is_opened = True, cap_read = Some \<lparr>shape_h = 480, shape_w = 640, drawn = []\<rparr>,
        detected = Some [[(1/2, 1/2), (1/2, 1/2), (1/2, 1/2), (1/2, 1/2), (1/4, 1/4), (1/2, 1/2), (1/2, 1/2),
          (1/2, 1/2), (1/4, 1/2), (1/2, 1/2), (1/2, 1/2), (1/2, 1/2), (1/2, 1/2), (1/2, 1/2),
          (1/2, 1/2), (1/2, 1/2), (1/2, 1/2), (1/2, 1/2), (1/2, 1/2), (1/2, 1/2), (1/2, 1/2)]],
        backend_raises = False, wait_key = - 1\<rparr>"] g s f
    by simp
qed

text \<open>
  Claim C8. When frame acquisition fails, in whatever pass, the loop prints the failure
  message and is left at once: the passes that would follow are not used, and the camera
  and the windows are released. When it fails in the first pass, the whole run makes no
  brightness call.
\<close>

theorem acquisition_failure_exits:
  assumes "fst (main_loop pre) = Pending" and "is_opened it" and "cap_read it = None"
  shows "main (pre @ it # its) =
           (Finished, snd (main_loop pre) @ [Print ''Failed to capture frame. Exiting...'', Cap_release, Destroy_all_windows])
         \<and> main (it # its) = (Finished, [Print ''Failed to capture frame. Exiting...'', Cap_release, Destroy_all_windows])
         \<and> (\<forall>b. Set_brightness b \<notin> set (snd (main (it # its))))"
proof -
  have body: "loop_body it = (Break, [Print ''Failed to capture frame. Exiting...''])"
    using assms(3) by (rule loop_body_failed)
  with assms(2) have one: "main_loop (it # its) = (Finished, [Print ''Failed to capture frame. Exiting...''])"
    by simp
  then have first:
    "main (it # its) = (Finished, [Print ''Failed to capture frame. Exiting...'', Cap_release, Destroy_all_windows])"
    by (simp add: main_def)
  have "main_loop (pre @ it # its) = (Finished, snd (main_loop pre) @ [Print ''Failed to capture frame. Exiting...''])"
    using main_loop_append [OF assms(1), of "it # its"] one by simp
  then have "main (pre @ it # its) =
           (Finished, snd (main_loop pre) @ [Print ''Failed to capture frame. Exiting...'', Cap_release, Destroy_all_windows])"
    by (simp add: main_def)
  with first show ?thesis by simp
qed

theorem acquisition_failure_exits_witness:
  "fst (main_loop [\<lparr>is_opened = True, cap_read = Some \<lparr>shape_h = 480, shape_w = 640, drawn = []\<rparr>,
        detected = None,
        backend_raises = False, wait_key = - 1\<rparr>]) = Pending \<and>
   main ([\<lparr>is_opened = True, cap_read = Some \<lparr>shape_h = 480, shape_w = 640, drawn = []\<rparr>,
        detected = None,
        backend_raises = False, wait_key = - 1\<rparr>] @
         \<lparr>is_opened = True, cap_read = None,
        detected = None,
        backend_raises = False, wait_key = - 1\<rparr> #
         [\<lparr>is_opened = True, cap_read = Some \<lparr>shape_h = 480, shape_w = 640, drawn = []\<rparr>,
        detected = Some [[(1/2, 1/2), (1/2, 1/2), (1/2, 1/2), (1/2, 1/2), (1/4, 1/4), (1/2, 1/2), (1/2, 1/2),
          (1/2, 1/2), (1/4, 1/2), (1/2, 1/2), (1/2, 1/2), (1/2, 1/2), (1/2, 1/2), (1/2, 1/2),
          (1/2, 1/2), (1/2, 1/2), (1/2, 1/2), (1/2, 1/2), (1/2, 1/2), (1/2, 1/2), (1/2, 1/2)]],
        backend_raises = False, wait_key = - 1\<rparr>]) =
     (Finished, [Imshow \<lparr>shape_h = 480, shape_w = 640, drawn = []\<rparr>, Print ''Failed to capture frame. Exiting...'', Cap_release, Destroy_all_windows]) \<and>
   main (\<lparr>is_opened = True, cap_read = None,
        detected = None,
        backend_raises = False, wait_key = - 1\<rparr> #
         [\<lparr>is_opened = True, cap_read = Some \<lparr>shape_h = 480, shape_w = 640, drawn = []\<rparr>,
        detected = Some [[(1/2, 1/2), (1/2, 1/2), (1/2, 1/2), (1/2, 1/2), (1/4, 1/4), (1/2, 1/2), (1/2, 1/2),
          (1/2, 1/2), (1/4, 1/2), (1/2, 1/2), (1/2, 1/2), (1/2, 1/2), (1/2, 1/2), (1/2, 1/2),
          (1/2, 1/2), (1/2, 1/2), (1/2, 1/2), (1/2, 1/2), (1/2, 1/2), (1/2, 1/2), (1/2, 1/2)]],
        backend_raises = False, wait_key = - 1\<rparr>]) =
     (Finished, [Print ''Failed to capture frame. Exiting...'', Cap_release, Destroy_all_windows])"
proof -
  have p: "main_loop [\<lparr>is_opened = True, cap_read = Some \<lparr>shape_h = 480, shape_w = 640, drawn = []\<rparr>,
        detected = None,
        backend_raises = False, wait_key = - 1\<rparr>] = (Pending, [Imshow \<lparr>shape_h = 480, shape_w = 640, drawn = []\<rparr>])"
    by (simp add: loop_body_def get_hand_landmarks_def)
  then have f: "fst (main_loop [\<lparr>is_opened = True, cap_read = Some \<lparr>shape_h = 480, shape_w = 640, drawn = []\<rparr>,
        detected = None,
        backend_raises = False, wait_key = - 1\<rparr>]) = Pending"
    by simp
  show ?thesis
    using p acquisition_failure_exits [OF f, of "\<lparr>is_opened = True, cap_read = None,
        detected = None,
        backend_raises = False, wait_key = - 1\<rparr>"
        "[\<lparr>is_opened = True, cap_read = Some \<lparr>shape_h = 480, shape_w = 640, drawn = []\<rparr>,
        detected = Some [[(1/2, 1/2), (1/2, 1/2), (1/2, 1/2), (1/2, 1/2), (1/4, 1/4), (1/2, 1/2), (1/2, 1/2),
          (1/2, 1/2), (1/4, 1/2), (1/2, 1/2), (1/2, 1/2), (1/2, 1/2), (1/2, 1/2), (1/2, 1/2),
          (1/2, 1/2), (1/2, 1/2), (1/2, 1/2), (1/2, 1/2), (1/2, 1/2), (1/2, 1/2), (1/2, 1/2)]],
        backend_raises = False, wait_key = - 1\<rparr>]"]
    by simp
qed

text \<open>
  Claim C9, as stated, says that the camera and the windows are released on every exit,
  an exception of the brightness call included. They are not: when \<open>set_brightness\<close>
  raises in the first pass, the run ends with that exception and with neither release.
\<close>

theorem release_skipped_counterexample:
  "fst (main [\<lparr>is_opened = True, cap_read = Some \<lparr>shape_h = 480, shape_w = 640, drawn = []\<rparr>,
        detected = Some [[(1/2, 1/2), (1/2, 1/2), (1/2, 1/2), (1/2, 1/2), (1/4, 1/4), (1/2, 1/2), (1/2, 1/2),
          (1/2, 1/2), (1/4, 1/2), (1/2, 1/2), (1/2, 1/2), (1/2, 1/2), (1/2, 1/2), (1/2, 1/2),
          (1/2, 1/2), (1/2, 1/2), (1/2, 1/2), (1/2, 1/2), (1/2, 1/2), (1/2, 1/2), (1/2, 1/2)]],
        backend_raises = True, wait_key = - 1\<rparr>]) = Raised ScreenBrightnessError \<and>
   Cap_release \<notin> set (snd (main [\<lparr>is_opened = True, cap_read = Some \<lparr>shape_h = 480, shape_w = 640, drawn = []\<rparr>,
        detected = Some [[(1/2, 1/2), (1/2, 1/2), (1/2, 1/2), (1/2, 1/2), (1/4, 1/4), (1/2, 1/2), (1/2, 1/2),
          (1/2, 1/2), (1/4, 1/2), (1/2, 1/2), (1/2, 1/2), (1/2, 1/2), (1/2, 1/2), (1/2, 1/2),
          (1/2, 1/2), (1/2, 1/2), (1/2, 1/2), (1/2, 1/2), (1/2, 1/2), (1/2, 1/2), (1/2, 1/2)]],
        backend_raises = True, wait_key = - 1\<rparr>])) \<and>
   Destroy_all_windows \<notin> set (snd (main [\<lparr>is_opened = True, cap_read = Some \<lparr>shape_h = 480, shape_w = 640, drawn = []\<rparr>,
        detected = Some [[(1/2, 1/2), (1/2, 1/2), (1/2, 1/2), (1/2, 1/2), (1/4, 1/4), (1/2, 1/2), (1/2, 1/2),
          (1/2, 1/2), (1/4, 1/2), (1/2, 1/2), (1/2, 1/2), (1/2, 1/2), (1/2, 1/2), (1/2, 1/2),
          (1/2, 1/2), (1/2, 1/2), (1/2, 1/2), (1/2, 1/2), (1/2, 1/2), (1/2, 1/2), (1/2, 1/2)]],
        backend_raises = True, wait_key = - 1\<rparr>]))"
  by (simp add: main_def sample_pass_raise)

text \<open>
  Claim C9, amended. Whenever the loop is left by its own control flow, after any
  number of passes, the run ends with the release of the camera and the closing of the
  windows: when the camera is no longer open, when frame acquisition fails, and when the
  quit key is pressed. When the brightness call raises, the exception leaves \<open>main\<close> and
  neither is done. So a run that finishes always ends with the two releases, and a run
  ended by an exception never contains them.
\<close>

theorem release_on_loop_exit:
  "(fst (main_loop pre) = Pending \<and> \<not> is_opened it \<longrightarrow>
      main (pre @ it # its) = (Finished, snd (main_loop pre) @ [Cap_release, Destroy_all_windows]))
   \<and> (fst (main_loop pre) = Pending \<and> is_opened it \<and> cap_read it = None \<longrightarrow>
      main (pre @ it # its) =
        (Finished, snd (main_loop pre) @ [Print ''Failed to capture frame. Exiting...'', Cap_release, Destroy_all_windows]))
   \<and> (fst (main_loop pre) = Pending \<and> is_opened it \<and> cap_read it = Some frame0 \<and>
        \<not> backend_raises it \<and> wait_key it AND 255 = 113 \<longrightarrow>
      main (pre @ it # its) =
        (Finished, snd (main_loop pre) @ snd (loop_body it) @ [Cap_release, Destroy_all_windows]))
   \<and> (fst (main_loop pre) = Pending \<and> is_opened it \<and> cap_read it = Some frame0 \<and>
        backend_raises it \<and> 9 \<le> length (fst (get_hand_landmarks frame0 (detected it))) \<longrightarrow>
      main (pre @ it # its) =
        (Raised ScreenBrightnessError, snd (main_loop pre) @ snd (loop_body it)) \<and>
      Cap_release \<notin> set (snd (main (pre @ it # its))) \<and>
      Destroy_all_windows \<notin> set (snd (main (pre @ it # its))))
   \<and> (fst (main run) = Finished \<longrightarrow>
      (\<exists>tr. snd (main run) = tr @ [Cap_release, Destroy_all_windows]))
   \<and> (fst (main run) = Raised e \<longrightarrow>
      Cap_release \<notin> set (snd (main run)) \<and> Destroy_all_windows \<notin> set (snd (main run)))"
proof (intro conjI impI)
  assume h: "fst (main_loop pre) = Pending \<and> \<not> is_opened it"
  then show "main (pre @ it # its) =
      (Finished, snd (main_loop pre) @ [Cap_release, Destroy_all_windows])"
    by (simp add: main_append)
next
  assume h: "fst (main_loop pre) = Pending \<and> is_opened it \<and> cap_read it = None"
  then show "main (pre @ it # its) =
        (Finished, snd (main_loop pre) @ [Print ''Failed to capture frame. Exiting...'', Cap_release, Destroy_all_windows])"
    by (simp add: main_append loop_body_failed)
next
  assume h: "fst (main_loop pre) = Pending \<and> is_opened it \<and> cap_read it = Some frame0 \<and>
        \<not> backend_raises it \<and> wait_key it AND 255 = 113"
  then have "fst (loop_body it) = Break"
    using loop_body_quiet [of it frame0] by simp
  with h have "main_loop (it # its) = (Finished, snd (loop_body it))"
    by (simp add: main_loop_break del: main_loop.simps)
  with h show "main (pre @ it # its) =
        (Finished, snd (main_loop pre) @ snd (loop_body it) @ [Cap_release, Destroy_all_windows])"
    by (simp add: main_append del: main_loop.simps)
next
  assume h: "fst (main_loop pre) = Pending \<and> is_opened it \<and> cap_read it = Some frame0 \<and>
        backend_raises it \<and> 9 \<le> length (fst (get_hand_landmarks frame0 (detected it)))"
  then have "fst (loop_body it) = Raise ScreenBrightnessError"
    using loop_body_backend_raises [of it frame0] by simp
  with h have "main_loop (it # its) = (Raised ScreenBrightnessError, snd (loop_body it))"
    by (simp add: main_loop_raise del: main_loop.simps)
  with h have m: "main (pre @ it # its) =
        (Raised ScreenBrightnessError, snd (main_loop pre) @ snd (loop_body it))"
    by (simp add: main_append del: main_loop.simps)
  then show "main (pre @ it # its) =
        (Raised ScreenBrightnessError, snd (main_loop pre) @ snd (loop_body it))" .
  show "Cap_release \<notin> set (snd (main (pre @ it # its)))"
    unfolding m using main_loop_events [of Cap_release pre] loop_body_events [of Cap_release it]
    by auto
  show "Destroy_all_windows \<notin> set (snd (main (pre @ it # its)))"
    unfolding m
    using main_loop_events [of Destroy_all_windows pre] loop_body_events [of Destroy_all_windows it]
    by auto
next
  assume "fst (main run) = Finished"
  then show "\<exists>tr. snd (main run) = tr @ [Cap_release, Destroy_all_windows]"
    by (auto simp: main_def split: prod.splits outcome.splits)
next
  assume r: "fst (main run) = Raised e"
  then have eq: "snd (main run) = snd (main_loop run)"
    by (auto simp: main_def split: prod.splits outcome.splits)
  show "Cap_release \<notin> set (snd (main run))"
    unfolding eq using main_loop_events [of Cap_release run] by blast
  show "Destroy_all_windows \<notin> set (snd (main run))"
    unfolding eq using main_loop_events [of Destroy_all_windows run] by blast
qed

theorem release_on_loop_exit_witness:
  "main ([\<lparr>is_opened = True, cap_read = Some \<lparr>shape_h = 480, shape_w = 640, drawn = []\<rparr>,
        detected = None,
        backend_raises = False, wait_key = - 1\<rparr>] @ \<lparr>is_opened = False, cap_read = None,
        detected = None,
        backend_raises = False, wait_key = - 1\<rparr> # [\<lparr>is_opened = True, cap_read = Some \<lparr>shape_h = 480, shape_w = 640, drawn = []\<rparr>,
        detected = Some [[(1/2, 1/2), (1/2, 1/2), (1/2, 1/2), (1/2, 1/2), (1/4, 1/4), (1/2, 1/2), (1/2, 1/2),
          (1/2, 1/2), (1/4, 1/2), (1/2, 1/2), (1/2, 1/2), (1/2, 1/2), (1/2, 1/2), (1/2, 1/2),
          (1/2, 1/2), (1/2, 1/2), (1/2, 1/2), (1/2, 1/2), (1/2, 1/2), (1/2, 1/2), (1/2, 1/2)]],
        backend_raises = False, wait_key = - 1\<rparr>]) =
     (Finished, [Imshow \<lparr>shape_h = 480, shape_w = 640, drawn = []\<rparr>, Cap_release, Destroy_all_windows]) \<and>
   main ([\<lparr>is_opened = True, cap_read = Some \<lparr>shape_h = 480, shape_w = 640, drawn = []\<rparr>,
        detected = None,
        backend_raises = False, wait_key = - 1\<rparr>] @ \<lparr>is_opened = True, cap_read = None,
        detected = None,
        backend_raises = False, wait_key = - 1\<rparr> # [\<lparr>is_opened = True, cap_read = Some \<lparr>shape_h = 480, shape_w = 640, drawn = []\<rparr>,
        detected = Some [[(1/2, 1/2), (1/2, 1/2), (1/2, 1/2), (1/2, 1/2), (1/4, 1/4), (1/2, 1/2), (1/2, 1/2),
          (1/2, 1/2), (1/4, 1/2), (1/2, 1/2), (1/2, 1/2), (1/2, 1/2), (1/2, 1/2), (1/2, 1/2),
          (1/2, 1/2), (1/2, 1/2), (1/2, 1/2), (1/2, 1/2), (1/2, 1/2), (1/2, 1/2), (1/2, 1/2)]],
        backend_raises = False, wait_key = - 1\<rparr>]) =
     (Finished, [Imshow \<lparr>shape_h = 480, shape_w = 640, drawn = []\<rparr>, Print ''Failed to capture frame. Exiting...'', Cap_release, Destroy_all_windows]) \<and>
   main ([\<lparr>is_opened = True, cap_read = Some \<lparr>shape_h = 480, shape_w = 640, drawn = []\<rparr>,
        detected = None,
        backend_raises = False, wait_key = - 1\<rparr>] @ \<lparr>is_opened = True, cap_read = Some \<lparr>shape_h = 480, shape_w = 640, drawn = []\<rparr>,
        detected = Some [[(1/2, 1/2), (1/2, 1/2), (1/2, 1/2), (1/2, 1/2), (1/4, 1/4), (1/2, 1/2), (1/2, 1/2),
          (1/2, 1/2), (1/4, 1/2), (1/2, 1/2), (1/2, 1/2), (1/2, 1/2), (1/2, 1/2), (1/2, 1/2),
          (1/2, 1/2), (1/2, 1/2), (1/2, 1/2), (1/2, 1/2), (1/2, 1/2), (1/2, 1/2), (1/2, 1/2)]],
        backend_raises = False, wait_key = 113\<rparr> # [\<lparr>is_opened = True, cap_read = Some \<lparr>shape_h = 480, shape_w = 640, drawn = []\<rparr>,
        detected = Some [[(1/2, 1/2), (1/2, 1/2), (1/2, 1/2), (1/2, 1/2), (1/4, 1/4), (1/2, 1/2), (1/2, 1/2),
          (1/2, 1/2), (1/4, 1/2), (1/2, 1/2), (1/2, 1/2), (1/2, 1/2), (1/2, 1/2), (1/2, 1/2),
          (1/2, 1/2), (1/2, 1/2), (1/2, 1/2), (1/2, 1/2), (1/2, 1/2), (1/2, 1/2), (1/2, 1/2)]],
        backend_raises = False, wait_key = - 1\<rparr>]) =
     (Finished, [Imshow \<lparr>shape_h = 480, shape_w = 640, drawn = []\<rparr>, Print_brightness 51 120, Set_brightness 51,
        Imshow \<lparr>shape_h = 480, shape_w = 640,
        drawn = [Hand_connections
         [(1/2, 1/2), (1/2, 1/2), (1/2, 1/2), (1/2, 1/2), (1/4, 1/4), (1/2, 1/2), (1/2, 1/2),
          (1/2, 1/2), (1/4, 1/2), (1/2, 1/2), (1/2, 1/2), (1/2, 1/2), (1/2, 1/2), (1/2, 1/2),
          (1/2, 1/2), (1/2, 1/2), (1/2, 1/2), (1/2, 1/2), (1/2, 1/2), (1/2, 1/2), (1/2, 1/2)],
         Circle (160, 120), Circle (160, 240), Line (160, 120) (160, 240)]\<rparr>,
        Cap_release, Destroy_all_windows]) \<and>
   main ([\<lparr>is_opened = True, cap_read = Some \<lparr>shape_h = 480, shape_w = 640, drawn = []\<rparr>,
        detected = None,
        backend_raises = False, wait_key = - 1\<rparr>] @ \<lparr>is_opened = True, cap_read = Some \<lparr>shape_h = 480, shape_w = 640, drawn = []\<rparr>,
        detected = Some [[(1/2, 1/2), (1/2, 1/2), (1/2, 1/2), (1/2, 1/2), (1/4, 1/4), (1/2, 1/2), (1/2, 1/2),
          (1/2, 1/2), (1/4, 1/2), (1/2, 1/2), (1/2, 1/2), (1/2, 1/2), (1/2, 1/2), (1/2, 1/2),
          (1/2, 1/2), (1/2, 1/2), (1/2, 1/2), (1/2, 1/2), (1/2, 1/2), (1/2, 1/2), (1/2, 1/2)]],
        backend_raises = True, wait_key = - 1\<rparr> # [\<lparr>is_opened = True, cap_read = Some \<lparr>shape_h = 480, shape_w = 640, drawn = []\<rparr>,
        detected = Some [[(1/2, 1/2), (1/2, 1/2), (1/2, 1/2), (1/2, 1/2), (1/4, 1/4), (1/2, 1/2), (1/2, 1/2),
          (1/2, 1/2), (1/4, 1/2), (1/2, 1/2), (1/2, 1/2), (1/2, 1/2), (1/2, 1/2), (1/2, 1/2),
          (1/2, 1/2), (1/2, 1/2), (1/2, 1/2), (1/2, 1/2), (1/2, 1/2), (1/2, 1/2), (1/2, 1/2)]],
        backend_raises = False, wait_key = - 1\<rparr>]) =
     (Raised ScreenBrightnessError, [Imshow \<lparr>shape_h = 480, shape_w = 640, drawn = []\<rparr>, Print_brightness 51 120, Set_brightness 51])"
proof -
  have p: "main_loop [\<lparr>is_opened = True, cap_read = Some \<lparr>shape_h = 480, shape_w = 640, drawn = []\<rparr>,
        detected = None,
        backend_raises = False, wait_key = - 1\<rparr>] = (Pending, [Imshow \<lparr>shape_h = 480, shape_w = 640, drawn = []\<rparr>])"
    by (simp add: loop_body_def get_hand_landmarks_def)
  have q: "loop_body \<lparr>is_opened = True, cap_read = Some \<lparr>shape_h = 480, shape_w = 640, drawn = []\<rparr>,
        detected = Some [[(1/2, 1/2), (1/2, 1/2), (1/2, 1/2), (1/2, 1/2), (1/4, 1/4), (1/2, 1/2), (1/2, 1/2),
          (1/2, 1/2), (1/4, 1/2), (1/2, 1/2), (1/2, 1/2), (1/2, 1/2), (1/2, 1/2), (1/2, 1/2),
          (1/2, 1/2), (1/2, 1/2), (1/2, 1/2), (1/2, 1/2), (1/2, 1/2), (1/2, 1/2), (1/2, 1/2)]],
        backend_raises = False, wait_key = 113\<rparr> =
     (Break, [Print_brightness 51 120, Set_brightness 51,
        Imshow \<lparr>shape_h = 480, shape_w = 640,
        drawn = [Hand_connections
         [(1/2, 1/2), (1/2, 1/2), (1/2, 1/2), (1/2, 1/2), (1/4, 1/4), (1/2, 1/2), (1/2, 1/2),
          (1/2, 1/2), (1/4, 1/2), (1/2, 1/2), (1/2, 1/2), (1/2, 1/2), (1/2, 1/2), (1/2, 1/2),
          (1/2, 1/2), (1/2, 1/2), (1/2, 1/2), (1/2, 1/2), (1/2, 1/2), (1/2, 1/2), (1/2, 1/2)],
         Circle (160, 120), Circle (160, 240), Line (160, 120) (160, 240)]\<rparr>])"
    by (simp add: loop_body_def get_hand_landmarks_def py_int_def calculate_brightness_eq
          hypot_vertical Let_def)
  have n: "9 \<le> length (fst (get_hand_landmarks \<lparr>shape_h = 480, shape_w = 640, drawn = []\<rparr> (Some [[(1/2, 1/2), (1/2, 1/2), (1/2, 1/2), (1/2, 1/2), (1/4, 1/4), (1/2, 1/2), (1/2, 1/2),
          (1/2, 1/2), (1/4, 1/2), (1/2, 1/2), (1/2, 1/2), (1/2, 1/2), (1/2, 1/2), (1/2, 1/2),
          (1/2, 1/2), (1/2, 1/2), (1/2, 1/2), (1/2, 1/2), (1/2, 1/2), (1/2, 1/2), (1/2, 1/2)]])))"
    by (simp add: get_hand_landmarks_def)
  show ?thesis
    using p q n sample_pass_raise
      release_on_loop_exit [of "[\<lparr>is_opened = True, cap_read = Some \<lparr>shape_h = 480, shape_w = 640, drawn = []\<rparr>,
        detected = None,
        backend_raises = False, wait_key = - 1\<rparr>]" "\<lparr>is_opened = False, cap_read = None,
        detected = None,
        backend_raises = False, wait_key = - 1\<rparr>" "[\<lparr>is_opened = True, cap_read = Some \<lparr>shape_h = 480, shape_w = 640, drawn = []\<rparr>,
        detected = Some [[(1/2, 1/2), (1/2, 1/2), (1/2, 1/2), (1/2, 1/2), (1/4, 1/4), (1/2, 1/2), (1/2, 1/2),
          (1/2, 1/2), (1/4, 1/2), (1/2, 1/2), (1/2, 1/2), (1/2, 1/2), (1/2, 1/2), (1/2, 1/2),
          (1/2, 1/2), (1/2, 1/2), (1/2, 1/2), (1/2, 1/2), (1/2, 1/2), (1/2, 1/2), (1/2, 1/2)]],
        backend_raises = False, wait_key = - 1\<rparr>]"]
      release_on_loop_exit [of "[\<lparr>is_opened = True, cap_read = Some \<lparr>shape_h = 480, shape_w = 640, drawn = []\<rparr>,
        detected = None,
        backend_raises = False, wait_key = - 1\<rparr>]" "\<lparr>is_opened = True, cap_read = None,
        detected = None,
        backend_raises = False, wait_key = - 1\<rparr>" "[\<lparr>is_opened = True, cap_read = Some \<lparr>shape_h = 480, shape_w = 640, drawn = []\<rparr>,
        detected = Some [[(1/2, 1/2), (1/2, 1/2), (1/2, 1/2), (1/2, 1/2), (1/4, 1/4), (1/2, 1/2), (1/2, 1/2),
          (1/2, 1/2), (1/4, 1/2), (1/2, 1/2), (1/2, 1/2), (1/2, 1/2), (1/2, 1/2), (1/2, 1/2),
          (1/2, 1/2), (1/2, 1/2), (1/2, 1/2), (1/2, 1/2), (1/2, 1/2), (1/2, 1/2), (1/2, 1/2)]],
        backend_raises = False, wait_key = - 1\<rparr>]"]
      release_on_loop_exit [of "[\<lparr>is_opened = True, cap_read = Some \<lparr>shape_h = 480, shape_w = 640, drawn = []\<rparr>,
        detected = None,
        backend_raises = False, wait_key = - 1\<rparr>]" "\<lparr>is_opened = True, cap_read = Some \<lparr>shape_h = 480, shape_w = 640, drawn = []\<rparr>,
        detected = Some [[(1/2, 1/2), (1/2, 1/2), (1/2, 1/2), (1/2, 1/2), (1/4, 1/4), (1/2, 1/2), (1/2, 1/2),
          (1/2, 1/2), (1/4, 1/2), (1/2, 1/2), (1/2, 1/2), (1/2, 1/2), (1/2, 1/2), (1/2, 1/2),
          (1/2, 1/2), (1/2, 1/2), (1/2, 1/2), (1/2, 1/2), (1/2, 1/2), (1/2, 1/2), (1/2, 1/2)]],
        backend_raises = False, wait_key = 113\<rparr>" "[\<lparr>is_opened = True, cap_read = Some \<lparr>shape_h = 480, shape_w = 640, drawn = []\<rparr>,
        detected = Some [[(1/2, 1/2), (1/2, 1/2), (1/2, 1/2), (1/2, 1/2), (1/4, 1/4), (1/2, 1/2), (1/2, 1/2),
          (1/2, 1/2), (1/4, 1/2), (1/2, 1/2), (1/2, 1/2), (1/2, 1/2), (1/2, 1/2), (1/2, 1/2),
          (1/2, 1/2), (1/2, 1/2), (1/2, 1/2), (1/2, 1/2), (1/2, 1/2), (1/2, 1/2), (1/2, 1/2)]],
        backend_raises = False, wait_key = - 1\<rparr>]" "\<lparr>shape_h = 480, shape_w = 640, drawn = []\<rparr>"]
      release_on_loop_exit [of "[\<lparr>is_opened = True, cap_read = Some \<lparr>shape_h = 480, shape_w = 640, drawn = []\<rparr>,
        detected = None,
        backend_raises = False, wait_key = - 1\<rparr>]" "\<lparr>is_opened = True, cap_read = Some \<lparr>shape_h = 480, shape_w = 640, drawn = []\<rparr>,
        detected = Some [[(1/2, 1/2), (1/2, 1/2), (1/2, 1/2), (1/2, 1/2), (1/4, 1/4), (1/2, 1/2), (1/2, 1/2),
          (1/2, 1/2), (1/4, 1/2), (1/2, 1/2), (1/2, 1/2), (1/2, 1/2), (1/2, 1/2), (1/2, 1/2),
          (1/2, 1/2), (1/2, 1/2), (1/2, 1/2), (1/2, 1/2), (1/2, 1/2), (1/2, 1/2), (1/2, 1/2)]],
        backend_raises = True, wait_key = - 1\<rparr>" "[\<lparr>is_opened = True, cap_read = Some \<lparr>shape_h = 480, shape_w = 640, drawn = []\<rparr>,
        detected = Some [[(1/2, 1/2), (1/2, 1/2), (1/2, 1/2), (1/2, 1/2), (1/4, 1/4), (1/2, 1/2), (1/2, 1/2),
          (1/2, 1/2), (1/4, 1/2), (1/2, 1/2), (1/2, 1/2), (1/2, 1/2), (1/2, 1/2), (1/2, 1/2),
          (1/2, 1/2), (1/2, 1/2), (1/2, 1/2), (1/2, 1/2), (1/2, 1/2), (1/2, 1/2), (1/2, 1/2)]],
        backend_raises = False, wait_key = - 1\<rparr>]" "\<lparr>shape_h = 480, shape_w = 640, drawn = []\<rparr>"]
    by simp
qed

end
